theory Spec2Isabelle
  imports Main
begin

section \<open>The admin notification panel (src/components/AdminNotifications.js)\<close>

text \<open>
  The component keeps four \<^verbatim>\<open>useState\<close> cells (\<^verbatim>\<open>notifications\<close>, \<^verbatim>\<open>loading\<close>,
  \<^verbatim>\<open>error\<close>, \<^verbatim>\<open>unreadCount\<close>) and defines two asynchronous handlers, two pure helpers
  and one mount effect. The handlers are embedded as state transformers that may complete
  normally or by a throw; the outcome of each awaited collaborator call is an argument.
\<close>

subsection \<open>JavaScript values\<close>

text \<open>
  The value of a free-form field of a notification: absent (\<^verbatim>\<open>undefined\<close>), \<^verbatim>\<open>null\<close>
  or a string.
\<close>

datatype js_value = Undefined | Null | Str string

text \<open>Truthiness, as \<^verbatim>\<open>||\<close> tests it.\<close>

fun truthy :: "js_value \<Rightarrow> bool" where
  "truthy Undefined = False"
| "truthy Null = False"
| "truthy (Str s) = (s \<noteq> [])"

text \<open>The conversion a template literal applies to an interpolated value.\<close>

fun to_string :: "js_value \<Rightarrow> string" where
  "to_string Undefined = ''undefined''"
| "to_string Null = ''null''"
| "to_string (Str s) = s"

text \<open>\<^verbatim>\<open>a || b\<close>\<close>

definition js_or :: "js_value \<Rightarrow> js_value \<Rightarrow> js_value" where
  "js_or a b = (if truthy a then a else b)"

text \<open>What a \<^verbatim>\<open>throw\<close> or a rejected promise carries.\<close>

datatype js_error = Rejection string | TypeError | RangeError

text \<open>A settled promise, as \<^verbatim>\<open>await\<close> sees it.\<close>

datatype 'r promise = Resolved 'r | Rejected js_error

subsection \<open>Timestamps\<close>

text \<open>
  A \<^verbatim>\<open>Date\<close> object holds a time value in milliseconds or is an invalid date.
\<close>

datatype js_date = ValidDate int | InvalidDate

text \<open>
  The shapes of \<^verbatim>\<open>createdAt\<close>: absent, \<^verbatim>\<open>null\<close>, a string, an integral number of
  milliseconds, \<^verbatim>\<open>NaN\<close>, a boolean, an object with a \<^verbatim>\<open>toDate\<close> method (the argument
  is what calling the method does, and what date-fns makes of the value it returns), and
  any other object (the argument is what \<^verbatim>\<open>new Date(object)\<close> does).
\<close>

datatype js_time =
    TUndefined
  | TNull
  | TStr string
  | TNum int
  | TNaN
  | TBool bool
  | TTemporal "js_error + js_date"
  | TObject "js_error + js_date"

fun truthy_time :: "js_time \<Rightarrow> bool" where
  "truthy_time TUndefined = False"
| "truthy_time TNull = False"
| "truthy_time (TStr s) = (s \<noteq> [])"
| "truthy_time (TNum n) = (n \<noteq> 0)"
| "truthy_time TNaN = False"
| "truthy_time (TBool b) = b"
| "truthy_time (TTemporal r) = True"
| "truthy_time (TObject r) = True"

subsection \<open>Data model\<close>

record notification =
  notif_id :: string
  notif_type :: js_value
  read :: bool
  createdAt :: js_time
  userName :: js_value
  userEmail :: js_value

text \<open>
  The four state cells. Notifications are extensible records, so that an entry may carry
  further type-specific fields.
\<close>

record 'a panel_state =
  notifications :: "'a notification_scheme list"
  loading :: bool
  error :: string
  unreadCount :: int

text \<open>The component together with what it has written with \<^verbatim>\<open>console.error\<close>.\<close>

record 'a world =
  panel :: "'a panel_state"
  console :: "string list"

subsection \<open>Statements: state transformers with completions\<close>

datatype 'r completion = Normal 'r | Throw js_error

type_synonym ('r, 'a) prog = "'a world \<Rightarrow> 'r completion \<times> 'a world"

definition js_return :: "'r \<Rightarrow> ('r, 'a) prog" where
  "js_return x w = (Normal x, w)"

definition js_throw :: "js_error \<Rightarrow> ('r, 'a) prog" where
  "js_throw e w = (Throw e, w)"

text \<open>Sequencing: a throw skips the rest; the state written so far stays.\<close>

definition js_bind :: "('r, 'a) prog \<Rightarrow> ('r \<Rightarrow> ('q, 'a) prog) \<Rightarrow> ('q, 'a) prog" where
  "js_bind p f w =
     (case p w of
        (Normal x, w') \<Rightarrow> f x w'
      | (Throw e, w') \<Rightarrow> (Throw e, w'))"

definition try_catch :: "('r, 'a) prog \<Rightarrow> (js_error \<Rightarrow> ('r, 'a) prog) \<Rightarrow> ('r, 'a) prog" where
  "try_catch p h w =
     (case p w of
        (Normal x, w') \<Rightarrow> (Normal x, w')
      | (Throw e, w') \<Rightarrow> h e w')"

definition try_finally :: "('r, 'a) prog \<Rightarrow> (unit, 'a) prog \<Rightarrow> ('r, 'a) prog" where
  "try_finally p q w =
     (case p w of
        (c, w') \<Rightarrow>
          (case q w' of
             (Normal u, w'') \<Rightarrow> (c, w'')
           | (Throw e, w'') \<Rightarrow> (Throw e, w'')))"

text \<open>\<^verbatim>\<open>await\<close> of a settled promise.\<close>

fun await :: "'r promise \<Rightarrow> ('r, 'a) prog" where
  "await (Resolved x) = js_return x"
| "await (Rejected e) = js_throw e"

text \<open>The state setters; the \<^verbatim>\<open>_with\<close> forms take an updater function.\<close>

definition setNotifications :: "'a notification_scheme list \<Rightarrow> (unit, 'a) prog" where
  "setNotifications ns w = (Normal (), w\<lparr>panel := (panel w)\<lparr>notifications := ns\<rparr>\<rparr>)"

definition setNotifications_with ::
  "('a notification_scheme list \<Rightarrow> 'a notification_scheme list) \<Rightarrow> (unit, 'a) prog" where
  "setNotifications_with f w =
     (Normal (), w\<lparr>panel := (panel w)\<lparr>notifications := f (notifications (panel w))\<rparr>\<rparr>)"

definition setLoading :: "bool \<Rightarrow> (unit, 'a) prog" where
  "setLoading b w = (Normal (), w\<lparr>panel := (panel w)\<lparr>loading := b\<rparr>\<rparr>)"

definition setError :: "string \<Rightarrow> (unit, 'a) prog" where
  "setError m w = (Normal (), w\<lparr>panel := (panel w)\<lparr>error := m\<rparr>\<rparr>)"

definition setUnreadCount :: "int \<Rightarrow> (unit, 'a) prog" where
  "setUnreadCount c w = (Normal (), w\<lparr>panel := (panel w)\<lparr>unreadCount := c\<rparr>\<rparr>)"

definition setUnreadCount_with :: "(int \<Rightarrow> int) \<Rightarrow> (unit, 'a) prog" where
  "setUnreadCount_with f w =
     (Normal (), w\<lparr>panel := (panel w)\<lparr>unreadCount := f (unreadCount (panel w))\<rparr>\<rparr>)"

definition console_error :: "string \<Rightarrow> (unit, 'a) prog" where
  "console_error m w = (Normal (), w\<lparr>console := console w @ [m]\<rparr>)"

subsection \<open>fetchNotifications\<close>

text \<open>
  \<^verbatim>\<open>fetch_begin\<close> is the part of the \<^verbatim>\<open>try\<close> block that runs before the \<^verbatim>\<open>await\<close>
  (line 17): the state it leaves is what the panel shows while the request is in flight.
  \<^verbatim>\<open>fetch_resume\<close> is the rest of the block (lines 18 to 23), given the settled promise
  of \<^verbatim>\<open>getAdminNotifications()\<close>.
\<close>

definition fetch_begin :: "(unit, 'a) prog" where
  "fetch_begin = setLoading True"

definition count_unread :: "'a notification_scheme list \<Rightarrow> int" where
  "count_unread ns = int (length (filter (\<lambda>notification. \<not> read notification) ns))"

definition fetch_resume :: "'a notification_scheme list promise \<Rightarrow> (unit, 'a) prog" where
  "fetch_resume getAdminNotifications =
     js_bind (await getAdminNotifications) (\<lambda>fetchedNotifications.
     js_bind (setNotifications fetchedNotifications) (\<lambda>_.
       setUnreadCount (count_unread fetchedNotifications)))"

definition fetch_catch :: "js_error \<Rightarrow> (unit, 'a) prog" where
  "fetch_catch e =
     js_bind (console_error ''Error fetching notifications:'') (\<lambda>_.
       setError ''Failed to load notifications'')"

definition fetchNotifications :: "'a notification_scheme list promise \<Rightarrow> (unit, 'a) prog" where
  "fetchNotifications getAdminNotifications =
     try_finally
       (try_catch
          (js_bind fetch_begin (\<lambda>_. fetch_resume getAdminNotifications))
          fetch_catch)
       (setLoading False)"

subsection \<open>handleMarkAsRead\<close>

definition mark_read :: "string \<Rightarrow> 'a notification_scheme \<Rightarrow> 'a notification_scheme" where
  "mark_read notificationId notification =
     (if notif_id notification = notificationId
      then notification\<lparr>read := True\<rparr>
      else notification)"

definition handleMarkAsRead :: "(string \<Rightarrow> unit promise) \<Rightarrow> string \<Rightarrow> (unit, 'a) prog" where
  "handleMarkAsRead markNotificationAsRead notificationId =
     try_catch
       (js_bind (await (markNotificationAsRead notificationId)) (\<lambda>_.
        js_bind (setNotifications_with (map (mark_read notificationId))) (\<lambda>_.
          setUnreadCount_with (\<lambda>prev. max 0 (prev - 1)))))
       (\<lambda>e. console_error ''Error marking notification as read:'')"

subsection \<open>formatNotificationTime\<close>

text \<open>A computation that touches no state: it returns or throws.\<close>

definition js_eval :: "js_error + 'r \<Rightarrow> ('r, 'a) prog" where
  "js_eval r = (case r of Inl e \<Rightarrow> js_throw e | Inr x \<Rightarrow> js_return x)"

text \<open>
  \<^verbatim>\<open>new Date(n)\<close> for a number: a time value beyond 8.64e15 milliseconds is an invalid
  date.
\<close>

definition time_clip :: "int \<Rightarrow> js_date" where
  "time_clip n = (if \<bar>n\<bar> \<le> 8640000000000000 then ValidDate n else InvalidDate)"

text \<open>
  The expression of lines 56 to 58. \<open>date_parse\<close> is the string parsing of \<^verbatim>\<open>new Date\<close>,
  which never throws. Reading \<^verbatim>\<open>toDate\<close> from \<^verbatim>\<open>undefined\<close> or \<^verbatim>\<open>null\<close> throws a
  TypeError; a number or a boolean has no such property and goes to \<^verbatim>\<open>new Date\<close>.
\<close>

fun to_date :: "(string \<Rightarrow> js_date) \<Rightarrow> js_time \<Rightarrow> js_error + js_date" where
  "to_date date_parse (TStr s) = Inr (date_parse s)"
| "to_date date_parse (TTemporal r) = r"
| "to_date date_parse TUndefined = Inl TypeError"
| "to_date date_parse TNull = Inl TypeError"
| "to_date date_parse (TNum n) = Inr (time_clip n)"
| "to_date date_parse TNaN = Inr InvalidDate"
| "to_date date_parse (TBool b) = Inr (ValidDate (if b then 1 else 0))"
| "to_date date_parse (TObject r) = r"

text \<open>
  The library function \<^verbatim>\<open>format\<close> of date-fns is a parameter \<open>format\<close> of the embedding,
  already applied to the pattern \<^verbatim>\<open>'MMM d, yyyy h:mm a'\<close>. The library documents that it
  throws a RangeError for an invalid date; \<open>date_fns_format\<close> is that behaviour, with the
  text of a valid date left open.
\<close>

definition date_fns_format :: "(int \<Rightarrow> string) \<Rightarrow> js_date \<Rightarrow> js_error + string" where
  "date_fns_format render date =
     (case date of ValidDate t \<Rightarrow> Inr (render t) | InvalidDate \<Rightarrow> Inl RangeError)"

definition formatNotificationTime ::
  "(string \<Rightarrow> js_date) \<Rightarrow> (js_date \<Rightarrow> js_error + string) \<Rightarrow> js_time \<Rightarrow> (string, 'a) prog" where
  "formatNotificationTime date_parse format timestamp =
     (if \<not> truthy_time timestamp then js_return []
      else
        try_catch
          (js_bind (js_eval (to_date date_parse timestamp)) (\<lambda>date.
             js_eval (format date)))
          (\<lambda>e. js_bind (console_error ''Error formatting date:'') (\<lambda>_.
             js_return ''Invalid date'')))"

text \<open>
  A timestamp is normalizable when the guard of line 53 lets it through and lines 56 to 58
  make a valid date of it.
\<close>

definition normalizable :: "(string \<Rightarrow> js_date) \<Rightarrow> js_time \<Rightarrow> bool" where
  "normalizable date_parse timestamp =
     (truthy_time timestamp \<and>
      (case to_date date_parse timestamp of
         Inr (ValidDate t) \<Rightarrow> True
       | Inr InvalidDate \<Rightarrow> False
       | Inl e \<Rightarrow> False))"

subsection \<open>getNotificationContent\<close>

record content =
  title :: string
  message :: string
  link :: string
  linkText :: string

definition getNotificationContent :: "'a notification_scheme \<Rightarrow> content" where
  "getNotificationContent notification =
     (if notif_type notification = Str ''new_google_user'' then
        \<lparr>title = ''New Google Sign-up'',
         message = to_string (js_or (userName notification) (userEmail notification))
                     @ '' has signed up with Google and is pending approval.'',
         link = ''/admin/pending-users'',
         linkText = ''View Pending Users''\<rparr>
      else
        \<lparr>title = ''Notification'',
         message = ''You have a new notification.'',
         link = [],
         linkText = []\<rparr>)"

subsection \<open>The status of the panel\<close>

datatype status = Loading | Error string | Ready

text \<open>
  Modelled from the spec: the \<open>status\<close> of the view model (loading, error(message) or
  ready), which the source does not compute; the source keeps the \<^verbatim>\<open>loading\<close> flag and
  the \<^verbatim>\<open>error\<close> message and tests them with \<^verbatim>\<open>loading &&\<close> and \<^verbatim>\<open>error &&\<close>. A fetch in
  flight is Loading; otherwise a non-empty message is Error.
\<close>

definition status_of :: "'a panel_state \<Rightarrow> status" where
  "status_of s =
     (if loading s then Loading
      else if error s \<noteq> [] then Error (error s)
      else Ready)"

subsection \<open>The mount effect and its timer\<close>

text \<open>
  The runtime's interval timers over a discrete clock: each timer has a handle, a period
  and the time it is next due. The only callback this component registers is
  \<^verbatim>\<open>fetchNotifications\<close>, so a firing is counted in \<open>fetch_calls\<close>.
\<close>

record timer =
  period :: nat
  due :: nat

record env =
  clock :: nat
  timers :: "(nat \<times> timer) list"
  next_handle :: nat
  fetch_calls :: nat

definition setInterval :: "nat \<Rightarrow> env \<Rightarrow> nat \<times> env" where
  "setInterval ms e =
     (next_handle e,
      e\<lparr>timers := timers e @ [(next_handle e, \<lparr>period = ms, due = clock e + ms\<rparr>)],
        next_handle := next_handle e + 1\<rparr>)"

definition clearInterval :: "nat \<Rightarrow> env \<Rightarrow> env" where
  "clearInterval h e = e\<lparr>timers := filter (\<lambda>kt. fst kt \<noteq> h) (timers e)\<rparr>"

definition is_due :: "nat \<Rightarrow> nat \<times> timer \<Rightarrow> bool" where
  "is_due now kt = (due (snd kt) \<le> now)"

definition reschedule :: "nat \<Rightarrow> nat \<times> timer \<Rightarrow> nat \<times> timer" where
  "reschedule now kt =
     (if is_due now kt then (fst kt, (snd kt)\<lparr>due := now + period (snd kt)\<rparr>) else kt)"

text \<open>One unit of time passes: every timer that is due fires once and is rescheduled.\<close>

definition tick :: "env \<Rightarrow> env" where
  "tick e =
     e\<lparr>clock := clock e + 1,
       timers := map (reschedule (clock e + 1)) (timers e),
       fetch_calls := fetch_calls e + length (filter (is_due (clock e + 1)) (timers e))\<rparr>"

fun advance :: "nat \<Rightarrow> env \<Rightarrow> env" where
  "advance 0 e = e"
| "advance (Suc n) e = advance n (tick e)"

definition refresh_interval :: nat where
  "refresh_interval = 5 * 60 * 1000"

text \<open>
  The effect of lines 88 to 95 at mount: one call of \<^verbatim>\<open>fetchNotifications\<close>, then the
  interval timer; the handle is what the cleanup closes over.
\<close>

definition useEffect_mount :: "env \<Rightarrow> nat \<times> env" where
  "useEffect_mount e = setInterval refresh_interval (e\<lparr>fetch_calls := fetch_calls e + 1\<rparr>)"

definition useEffect_cleanup :: "nat \<Rightarrow> env \<Rightarrow> env" where
  "useEffect_cleanup interval e = clearInterval interval e"

subsection \<open>Concrete inputs\<close>

text \<open>The states and collaborators at which the theorems below are evaluated.\<close>

definition entry :: "string \<Rightarrow> bool \<Rightarrow> notification" where
  "entry i r =
     \<lparr>notif_id = i, notif_type = Str ''new_google_user'', read = r,
      createdAt = TNum 1700000000000, userName = Str ''Alice'', userEmail = Str ''a@x.com''\<rparr>"

text \<open>The component as \<^verbatim>\<open>useState\<close> initialises it.\<close>

definition initial_world :: "unit world" where
  "initial_world =
     \<lparr>panel = \<lparr>notifications = [], loading = False, error = [], unreadCount = 0\<rparr>,
      console = []\<rparr>"

definition always_ok :: "string \<Rightarrow> unit promise" where
  "always_ok notificationId = Resolved ()"

text \<open>After a fetch that returned two unread notifications.\<close>

definition two_unread :: "unit world" where
  "two_unread =
     snd (fetchNotifications (Resolved [entry ''1'' False, entry ''2'' False]) initial_world)"

text \<open>After a fetch that was rejected.\<close>

definition failed_once :: "unit world" where
  "failed_once = snd (fetchNotifications (Rejected (Rejection ''offline'')) initial_world)"

definition initial_env :: env where
  "initial_env = \<lparr>clock = 0, timers = [], next_handle = 0, fetch_calls = 0\<rparr>"

section \<open>Properties\<close>

lemmas prog_defs =
  js_return_def js_throw_def js_bind_def try_catch_def try_finally_def
  setNotifications_def setNotifications_with_def setLoading_def setError_def
  setUnreadCount_def setUnreadCount_with_def console_error_def

lemma fetchNotifications_resolved:
  "fetchNotifications (Resolved R) w =
     (Normal (), w\<lparr>panel := (panel w)\<lparr>notifications := R, loading := False,
                                        unreadCount := count_unread R\<rparr>\<rparr>)"
  by (simp add: fetchNotifications_def fetch_begin_def fetch_resume_def prog_defs)

lemma fetchNotifications_rejected:
  "fetchNotifications (Rejected e) w =
     (Normal (), w\<lparr>panel := (panel w)\<lparr>loading := False,
                                        error := ''Failed to load notifications''\<rparr>,
                   console := console w @ [''Error fetching notifications:'']\<rparr>)"
  by (simp add: fetchNotifications_def fetch_begin_def fetch_resume_def fetch_catch_def
      prog_defs)

text \<open>
  C3: for every list \<open>R\<close> the fetch collaborator resolves with, the fetch completes normally,
  the stored list is \<open>R\<close> itself, whatever the list was before, and the unread count is the
  number of entries of \<open>R\<close> whose \<open>read\<close> is false.
\<close>

theorem fetch_success_replaces_list_and_counts_unread:
  "fst (fetchNotifications (Resolved R) w) = Normal ()
   \<and> notifications (panel (snd (fetchNotifications (Resolved R) w))) = R
   \<and> unreadCount (panel (snd (fetchNotifications (Resolved R) w)))
       = int (length (filter (\<lambda>n. \<not> read n) R))"
  by (simp add: fetchNotifications_resolved count_unread_def)

subsection \<open>Fetching\<close>

lemma fetch_begin_eq:
  "fetch_begin w = (Normal (), w\<lparr>panel := (panel w)\<lparr>loading := True\<rparr>\<rparr>)"
  by (simp add: fetch_begin_def prog_defs)

text \<open>
  C2, as stated, fails: the source never resets \<^verbatim>\<open>error\<close>. After one rejected fetch the
  message is set; starting the next fetch leaves it set, and so does that fetch when it
  succeeds, so the panel is not Ready.
\<close>

theorem fetch_keeps_stale_error:
  "error (panel failed_once) = ''Failed to load notifications''
   \<and> error (panel (snd (fetch_begin failed_once))) = ''Failed to load notifications''
   \<and> fst (fetchNotifications (Resolved [entry ''1'' False]) failed_once) = Normal ()
   \<and> error (panel (snd (fetchNotifications (Resolved [entry ''1'' False]) failed_once)))
       = ''Failed to load notifications''
   \<and> status_of (panel (snd (fetchNotifications (Resolved [entry ''1'' False]) failed_once)))
       = Error ''Failed to load notifications''"
  by (simp add: failed_once_def fetchNotifications_rejected fetchNotifications_resolved
      fetch_begin_eq status_of_def)

text \<open>
  C2, amended: for every prior state, starting a fetch sets the loading flag, so the status
  is Loading, and leaves the error message as it was; a fetch that succeeds completes
  normally, clears the loading flag and leaves the error message as it was before the
  fetch, so the panel is then Ready exactly when no error message was set before.
\<close>

theorem fetch_sets_loading_and_keeps_error:
  "loading (panel (snd (fetch_begin w)))
   \<and> status_of (panel (snd (fetch_begin w))) = Loading
   \<and> error (panel (snd (fetch_begin w))) = error (panel w)
   \<and> fst (fetchNotifications (Resolved R) w) = Normal ()
   \<and> \<not> loading (panel (snd (fetchNotifications (Resolved R) w)))
   \<and> error (panel (snd (fetchNotifications (Resolved R) w))) = error (panel w)
   \<and> (status_of (panel (snd (fetchNotifications (Resolved R) w))) = Ready)
       = (error (panel w) = [])"
  by (simp add: fetchNotifications_resolved fetch_begin_eq status_of_def)

text \<open>
  C4: for every prior state and every rejection of the fetch collaborator, the fetch
  completes normally (nothing is thrown to the caller), the notification list and the
  unread count are what they were, the error message is set, the loading flag is cleared
  and the status is Error.
\<close>

theorem fetch_failure_keeps_list_and_sets_error:
  "fst (fetchNotifications (Rejected e) w) = Normal ()
   \<and> notifications (panel (snd (fetchNotifications (Rejected e) w))) = notifications (panel w)
   \<and> unreadCount (panel (snd (fetchNotifications (Rejected e) w))) = unreadCount (panel w)
   \<and> error (panel (snd (fetchNotifications (Rejected e) w))) = ''Failed to load notifications''
   \<and> loading (panel (snd (fetchNotifications (Rejected e) w))) = False
   \<and> status_of (panel (snd (fetchNotifications (Rejected e) w)))
       = Error ''Failed to load notifications''"
  by (simp add: fetchNotifications_rejected status_of_def)

subsection \<open>Acknowledging\<close>

lemma handleMarkAsRead_resolved:
  "markNotificationAsRead notificationId = Resolved () \<Longrightarrow>
   handleMarkAsRead markNotificationAsRead notificationId w =
     (Normal (), w\<lparr>panel := (panel w)\<lparr>
        notifications := map (mark_read notificationId) (notifications (panel w)),
        unreadCount := max 0 (unreadCount (panel w) - 1)\<rparr>\<rparr>)"
  by (simp add: handleMarkAsRead_def prog_defs)

lemma handleMarkAsRead_rejected:
  "markNotificationAsRead notificationId = Rejected e \<Longrightarrow>
   handleMarkAsRead markNotificationAsRead notificationId w =
     (Normal (), w\<lparr>console := console w @ [''Error marking notification as read:'']\<rparr>)"
  by (simp add: handleMarkAsRead_def prog_defs)

text \<open>
  With distinct ids, mapping \<open>mark_read\<close> over the list is an update of the one position
  that holds the id.
\<close>

lemma mark_read_distinct:
  assumes "distinct (map notif_id ns)" and "i < length ns"
  shows "map (mark_read (notif_id (ns ! i))) ns = ns[i := (ns ! i)\<lparr>read := True\<rparr>]"
proof (rule nth_equalityI)
  show "length (map (mark_read (notif_id (ns ! i))) ns)
      = length (ns[i := (ns ! i)\<lparr>read := True\<rparr>])"
    by simp
next
  fix j
  assume "j < length (map (mark_read (notif_id (ns ! i))) ns)"
  then have j: "j < length ns" by simp
  show "map (mark_read (notif_id (ns ! i))) ns ! j = ns[i := (ns ! i)\<lparr>read := True\<rparr>] ! j"
  proof (cases "j = i")
    case True
    with j show ?thesis by (simp add: mark_read_def)
  next
    case False
    from assms j have "(map notif_id ns ! j = map notif_id ns ! i) = (j = i)"
      by (simp add: nth_eq_iff_index_eq del: nth_map)
    with False j assms(2) have "notif_id (ns ! j) \<noteq> notif_id (ns ! i)" by simp
    with False j show ?thesis by (simp add: mark_read_def)
  qed
qed

text \<open>
  C1 fails on the code: \<^verbatim>\<open>handleMarkAsRead\<close> decrements the unread count whether or not
  an entry changed. From the state a fetch of two unread notifications leaves, the first
  acknowledgement of "1" marks it read and the count goes from 2 to 1. The list then holds
  no unread entry with id "1"; the second acknowledgement leaves the list as it is and
  takes the count from 1 to 0, while one entry of the list is still unread.
\<close>

theorem second_acknowledge_decrements_again:
  "unreadCount (panel two_unread) = 2
   \<and> fst (handleMarkAsRead always_ok ''1'' two_unread) = Normal ()
   \<and> filter (\<lambda>n. notif_id n = ''1'' \<and> \<not> read n)
        (notifications (panel (snd (handleMarkAsRead always_ok ''1'' two_unread)))) = []
   \<and> unreadCount (panel (snd (handleMarkAsRead always_ok ''1'' two_unread))) = 1
   \<and> fst (handleMarkAsRead always_ok ''1'' (snd (handleMarkAsRead always_ok ''1'' two_unread)))
       = Normal ()
   \<and> notifications (panel (snd (handleMarkAsRead always_ok ''1''
        (snd (handleMarkAsRead always_ok ''1'' two_unread)))))
       = notifications (panel (snd (handleMarkAsRead always_ok ''1'' two_unread)))
   \<and> unreadCount (panel (snd (handleMarkAsRead always_ok ''1''
        (snd (handleMarkAsRead always_ok ''1'' two_unread))))) = 0
   \<and> count_unread (notifications (panel (snd (handleMarkAsRead always_ok ''1''
        (snd (handleMarkAsRead always_ok ''1'' two_unread)))))) = 1"
  by (simp add: two_unread_def initial_world_def always_ok_def entry_def
      fetchNotifications_resolved handleMarkAsRead_resolved mark_read_def count_unread_def)

text \<open>
  C5: when the list holds, at position \<open>i\<close>, an unread entry with the given id and the
  mark-as-read collaborator resolves, the acknowledgement completes normally; the list keeps
  its length; the entry at \<open>i\<close> is read; every position holds the entry it held, with
  \<open>read\<close> set where the id is the given one and untouched otherwise; when the ids of the
  list are distinct, the new list is the old one updated at position \<open>i\<close> alone, only in
  the \<open>read\<close> field; the unread count is the old one less one, floored at zero; the
  loading flag and the error message are as before.
\<close>

theorem acknowledge_marks_entry_and_decrements:
  assumes "markNotificationAsRead notificationId = Resolved ()"
    and "i < length (notifications (panel w))"
    and "notif_id (notifications (panel w) ! i) = notificationId"
    and "\<not> read (notifications (panel w) ! i)"
  shows "fst (handleMarkAsRead markNotificationAsRead notificationId w) = Normal ()
    \<and> length (notifications (panel (snd
          (handleMarkAsRead markNotificationAsRead notificationId w))))
        = length (notifications (panel w))
    \<and> read (notifications (panel (snd
          (handleMarkAsRead markNotificationAsRead notificationId w))) ! i)
    \<and> (\<forall>j < length (notifications (panel w)).
          notifications (panel (snd
            (handleMarkAsRead markNotificationAsRead notificationId w))) ! j
            = (if notif_id (notifications (panel w) ! j) = notificationId
               then (notifications (panel w) ! j)\<lparr>read := True\<rparr>
               else notifications (panel w) ! j))
    \<and> (distinct (map notif_id (notifications (panel w))) \<longrightarrow>
          notifications (panel (snd
            (handleMarkAsRead markNotificationAsRead notificationId w)))
            = (notifications (panel w))[i := (notifications (panel w) ! i)\<lparr>read := True\<rparr>])
    \<and> unreadCount (panel (snd (handleMarkAsRead markNotificationAsRead notificationId w)))
        = max 0 (unreadCount (panel w) - 1)
    \<and> loading (panel (snd (handleMarkAsRead markNotificationAsRead notificationId w)))
        = loading (panel w)
    \<and> error (panel (snd (handleMarkAsRead markNotificationAsRead notificationId w)))
        = error (panel w)"
proof -
  let ?ns = "notifications (panel w)"
  have run: "handleMarkAsRead markNotificationAsRead notificationId w =
     (Normal (), w\<lparr>panel := (panel w)\<lparr>
        notifications := map (mark_read notificationId) ?ns,
        unreadCount := max 0 (unreadCount (panel w) - 1)\<rparr>\<rparr>)"
    using assms(1) by (simp add: handleMarkAsRead_resolved)
  have d: "distinct (map notif_id ?ns) \<longrightarrow>
     map (mark_read notificationId) ?ns = ?ns[i := (?ns ! i)\<lparr>read := True\<rparr>]"
    using mark_read_distinct [of ?ns i] assms(2,3) by simp
  have p: "\<forall>j < length ?ns. map (mark_read notificationId) ?ns ! j
     = (if notif_id (?ns ! j) = notificationId then (?ns ! j)\<lparr>read := True\<rparr> else ?ns ! j)"
    by (simp add: mark_read_def)
  have r: "read (map (mark_read notificationId) ?ns ! i)"
    using assms(2,3) by (simp add: mark_read_def)
  show ?thesis
    unfolding run using d p r by simp
qed

text \<open>
  C5 at the state a fetch of two unread notifications leaves: acknowledging "1" gives the
  list with the first entry read and the second untouched, and the count 1.
\<close>

theorem acknowledge_marks_entry_and_decrements_witness:
  "always_ok ''1'' = Resolved ()
   \<and> 0 < length (notifications (panel two_unread))
   \<and> notif_id (notifications (panel two_unread) ! 0) = ''1''
   \<and> \<not> read (notifications (panel two_unread) ! 0)
   \<and> distinct (map notif_id (notifications (panel two_unread)))
   \<and> notifications (panel (snd (handleMarkAsRead always_ok ''1'' two_unread)))
       = [entry ''1'' True, entry ''2'' False]
   \<and> unreadCount (panel (snd (handleMarkAsRead always_ok ''1'' two_unread))) = 1"
  using acknowledge_marks_entry_and_decrements [of always_ok "''1''" 0 two_unread]
  by (simp add: two_unread_def initial_world_def always_ok_def entry_def
      fetchNotifications_resolved count_unread_def)

text \<open>
  C6: for every state, every id and every collaborator that rejects for that id, the
  acknowledgement completes normally (the rejection is caught and logged), and the list,
  the unread count, the loading flag and the error message are all as before.
\<close>

theorem acknowledge_failure_leaves_state:
  "fst (handleMarkAsRead (markNotificationAsRead(notificationId := Rejected e))
          notificationId w) = Normal ()
   \<and> panel (snd (handleMarkAsRead (markNotificationAsRead(notificationId := Rejected e))
          notificationId w)) = panel w
   \<and> console (snd (handleMarkAsRead (markNotificationAsRead(notificationId := Rejected e))
          notificationId w)) = console w @ [''Error marking notification as read:'']"
  by (simp add: handleMarkAsRead_rejected)

subsection \<open>Resolving the content\<close>

text \<open>
  C7: for every notification whose type is anything but the string \<^verbatim>\<open>new_google_user\<close>
  (another string, \<^verbatim>\<open>null\<close> or no type at all), the content is the generic payload,
  with empty \<open>link\<close> and \<open>linkText\<close>. The function is total: it has no failing branch.
\<close>

theorem unrecognized_type_gets_fallback:
  "notif_type notification \<noteq> Str ''new_google_user'' \<Longrightarrow>
   getNotificationContent notification =
     \<lparr>title = ''Notification'', message = ''You have a new notification.'',
      link = [], linkText = []\<rparr>"
  by (simp add: getNotificationContent_def)

text \<open>C7 at a notification of type \<^verbatim>\<open>xyz_unhandled\<close>.\<close>

theorem unrecognized_type_gets_fallback_witness:
  "notif_type ((entry ''1'' False)\<lparr>notif_type := Str ''xyz_unhandled''\<rparr>)
     \<noteq> Str ''new_google_user''
   \<and> getNotificationContent ((entry ''1'' False)\<lparr>notif_type := Str ''xyz_unhandled''\<rparr>) =
     \<lparr>title = ''Notification'', message = ''You have a new notification.'',
      link = [], linkText = []\<rparr>"
  using unrecognized_type_gets_fallback
    [of "(entry ''1'' False)\<lparr>notif_type := Str ''xyz_unhandled''\<rparr>"]
  by (simp add: entry_def)

text \<open>
  C10: two notifications that agree on \<open>type\<close>, \<open>userName\<close> and \<open>userEmail\<close> resolve to
  the same content, whatever their ids, read flags, timestamps and further fields are.
\<close>

theorem content_depends_on_three_fields:
  fixes n1 :: "'a notification_scheme" and n2 :: "'b notification_scheme"
  shows "notif_type n1 = notif_type n2 \<Longrightarrow> userName n1 = userName n2 \<Longrightarrow>
    userEmail n1 = userEmail n2 \<Longrightarrow>
    getNotificationContent n1 = getNotificationContent n2"
  by (simp add: getNotificationContent_def)

text \<open>
  C10 at two notifications that differ in id, read flag and timestamp: both resolve to the
  sign-up content for Alice.
\<close>

theorem content_depends_on_three_fields_witness:
  "notif_type (entry ''1'' False) = notif_type ((entry ''2'' True)\<lparr>createdAt := TNull\<rparr>)
   \<and> userName (entry ''1'' False) = userName ((entry ''2'' True)\<lparr>createdAt := TNull\<rparr>)
   \<and> userEmail (entry ''1'' False) = userEmail ((entry ''2'' True)\<lparr>createdAt := TNull\<rparr>)
   \<and> entry ''1'' False \<noteq> (entry ''2'' True)\<lparr>createdAt := TNull\<rparr>
   \<and> getNotificationContent (entry ''1'' False)
       = getNotificationContent ((entry ''2'' True)\<lparr>createdAt := TNull\<rparr>)"
  using content_depends_on_three_fields
    [of "entry ''1'' False" "(entry ''2'' True)\<lparr>createdAt := TNull\<rparr>"]
  by (simp add: entry_def)

subsection \<open>Formatting the time\<close>

text \<open>
  C8: for every timestamp, every string parser and every \<open>format\<close> (whatever it throws),
  \<^verbatim>\<open>formatNotificationTime\<close> completes normally with a string and leaves the component
  state alone. When \<open>format\<close> throws for an invalid date, as the one of date-fns does, a
  timestamp that is not normalizable gives a placeholder: the empty string when the guard
  of line 53 rejects it (a missing value), \<^verbatim>\<open>Invalid date\<close> otherwise (a malformed
  string, an object of another shape, a \<^verbatim>\<open>toDate\<close> that throws).
\<close>

theorem formatNotificationTime_total:
  "(\<exists>s. fst (formatNotificationTime date_parse format timestamp w) = Normal s)
   \<and> panel (snd (formatNotificationTime date_parse format timestamp w)) = panel w
   \<and> ((\<exists>e. format InvalidDate = Inl e) \<and> \<not> normalizable date_parse timestamp \<longrightarrow>
        fst (formatNotificationTime date_parse format timestamp w)
          = Normal (if truthy_time timestamp then ''Invalid date'' else []))"
  by (auto simp add: formatNotificationTime_def normalizable_def js_eval_def prog_defs
      split: sum.splits js_date.splits)

text \<open>
  C8 at a string that does not parse, with the \<open>format\<close> of date-fns: the result is
  \<^verbatim>\<open>Invalid date\<close>.
\<close>

theorem formatNotificationTime_total_witness:
  "(\<exists>e. date_fns_format (\<lambda>t. ''Jan 1, 1970 12:00 AM'') InvalidDate = Inl e)
   \<and> \<not> normalizable (\<lambda>s. InvalidDate) (TStr ''not a date'')
   \<and> fst (formatNotificationTime (\<lambda>s. InvalidDate)
            (date_fns_format (\<lambda>t. ''Jan 1, 1970 12:00 AM'')) (TStr ''not a date'')
            initial_world)
       = Normal ''Invalid date''"
  using formatNotificationTime_total
    [of "\<lambda>s. InvalidDate" "date_fns_format (\<lambda>t. ''Jan 1, 1970 12:00 AM'')"
        "TStr ''not a date''" initial_world]
  by (simp add: date_fns_format_def normalizable_def)

subsection \<open>The refresh timer\<close>

lemma advance_no_timers:
  "timers e = [] \<Longrightarrow> fetch_calls (advance n e) = fetch_calls e"
proof (induction n arbitrary: e)
  case 0
  then show ?case by simp
next
  case (Suc n)
  have "timers (tick e) = []" using Suc.prems by (simp add: tick_def)
  then have "fetch_calls (advance n (tick e)) = fetch_calls (tick e)" by (rule Suc.IH)
  then show ?case using Suc.prems by (simp add: tick_def)
qed

text \<open>
  One timer of period \<open>d\<close>, next due at \<open>t\<close>: in \<open>n\<close> units of time it fires once at \<open>t\<close>
  and once every \<open>d\<close> units after.
\<close>

lemma advance_one_timer:
  assumes "0 < d"
  shows "timers e = [(h, \<lparr>period = d, due = t\<rparr>)] \<Longrightarrow> clock e < t \<Longrightarrow>
    fetch_calls (advance n e)
      = fetch_calls e + (if clock e + n < t then 0 else (clock e + n - t) div d + 1)"
proof (induction n arbitrary: e t)
  case 0
  then show ?case by simp
next
  case (Suc n)
  have cl: "clock (tick e) = clock e + 1" by (simp add: tick_def)
  show ?case
  proof (cases "t = clock e + 1")
    case True
    have tm: "timers (tick e) = [(h, \<lparr>period = d, due = clock e + 1 + d\<rparr>)]"
      using Suc.prems True by (simp add: tick_def reschedule_def is_due_def)
    have fc: "fetch_calls (tick e) = fetch_calls e + 1"
      using Suc.prems True by (simp add: tick_def is_due_def)
    have lt: "clock (tick e) < clock e + 1 + d" using assms cl by simp
    have "fetch_calls (advance n (tick e))
        = fetch_calls (tick e)
          + (if clock (tick e) + n < clock e + 1 + d then 0
             else (clock (tick e) + n - (clock e + 1 + d)) div d + 1)"
      by (rule Suc.IH [OF tm lt])
    then have "fetch_calls (advance n (tick e))
        = fetch_calls e + 1 + (if n < d then 0 else (n - d) div d + 1)"
      by (simp add: cl fc)
    moreover have "(if n < d then 0 else (n - d) div d + 1) = n div d"
      using assms by (simp add: le_div_geq)
    ultimately show ?thesis using True by simp
  next
    case False
    with Suc.prems have gt: "clock e + 1 < t" by simp
    have tm: "timers (tick e) = [(h, \<lparr>period = d, due = t\<rparr>)]"
      using Suc.prems gt by (simp add: tick_def reschedule_def is_due_def)
    have fc: "fetch_calls (tick e) = fetch_calls e"
      using Suc.prems gt by (simp add: tick_def is_due_def)
    have lt: "clock (tick e) < t" using gt cl by simp
    have "fetch_calls (advance n (tick e))
        = fetch_calls (tick e)
          + (if clock (tick e) + n < t then 0 else (clock (tick e) + n - t) div d + 1)"
      by (rule Suc.IH [OF tm lt])
    then show ?thesis by (simp add: cl fc)
  qed
qed

lemma advance_periods:
  assumes "0 < d" and "timers e = []"
  shows "fetch_calls (advance (k * d) (snd (setInterval d e))) = fetch_calls e + k"
proof -
  let ?e = "snd (setInterval d e)"
  have tm: "timers ?e = [(next_handle e, \<lparr>period = d, due = clock e + d\<rparr>)]"
    using assms(2) by (simp add: setInterval_def)
  have cl: "clock ?e = clock e" by (simp add: setInterval_def)
  have fc: "fetch_calls ?e = fetch_calls e" by (simp add: setInterval_def)
  have lt: "clock ?e < clock e + d" using assms(1) cl by simp
  have "fetch_calls (advance (k * d) ?e)
      = fetch_calls ?e + (if clock ?e + k * d < clock e + d then 0
                           else (clock ?e + k * d - (clock e + d)) div d + 1)"
    by (rule advance_one_timer [OF assms(1) tm lt])
  then have eq: "fetch_calls (advance (k * d) ?e)
      = fetch_calls e + (if k * d < d then 0 else (k * d - d) div d + 1)"
    by (simp add: cl fc)
  show ?thesis
  proof (cases k)
    case 0
    with eq assms(1) show ?thesis by simp
  next
    case (Suc j)
    with eq assms(1) show ?thesis by simp
  qed
qed

lemma advance_keeps_handle:
  "timers e = [(h, tm)] \<Longrightarrow> \<exists>tm'. timers (advance n e) = [(h, tm')]"
proof (induction n arbitrary: e tm)
  case 0
  then show ?case by simp
next
  case (Suc n)
  have "\<exists>tm'. timers (tick e) = [(h, tm')]"
    using Suc.prems by (simp add: tick_def reschedule_def)
  then obtain tm' where "timers (tick e) = [(h, tm')]" ..
  then show ?case using Suc.IH by simp
qed

lemma cleared_after_advance:
  assumes "timers e = []"
  shows "fetch_calls (advance n (clearInterval (fst (setInterval d e))
            (advance m (snd (setInterval d e)))))
       = fetch_calls (advance m (snd (setInterval d e)))"
proof -
  let ?e = "snd (setInterval d e)"
  have "timers ?e = [(next_handle e, \<lparr>period = d, due = clock e + d\<rparr>)]"
    using assms by (simp add: setInterval_def)
  then obtain tm' where "timers (advance m ?e) = [(next_handle e, tm')]"
    using advance_keeps_handle by blast
  then have "timers (clearInterval (fst (setInterval d e)) (advance m ?e)) = []"
    by (simp add: clearInterval_def setInterval_def)
  then have "fetch_calls (advance n (clearInterval (fst (setInterval d e)) (advance m ?e)))
      = fetch_calls (clearInterval (fst (setInterval d e)) (advance m ?e))"
    by (rule advance_no_timers)
  then show ?thesis by (simp add: clearInterval_def)
qed

text \<open>
  C9, over the discrete clock, from a runtime with no other timer: the interval of the
  effect is 300000 ms; an interval timer of period 1 fires exactly 3 times while 3 units
  of time pass, and never again once it is cleared; the mount effect fetches once at once,
  then exactly \<open>k\<close> times while \<open>k\<close> intervals pass; after the cleanup, whenever it runs,
  no further fetch is invoked, however much time passes.
\<close>

theorem auto_refresh_fires_once_per_interval:
  assumes "timers e = []"
  shows "refresh_interval = 300000
    \<and> fetch_calls (advance 3 (snd (setInterval 1 e))) = fetch_calls e + 3
    \<and> fetch_calls (advance n (clearInterval (fst (setInterval 1 e))
          (advance 3 (snd (setInterval 1 e)))))
        = fetch_calls (advance 3 (snd (setInterval 1 e)))
    \<and> fetch_calls (snd (useEffect_mount e)) = fetch_calls e + 1
    \<and> fetch_calls (advance (k * refresh_interval) (snd (useEffect_mount e)))
        = fetch_calls (snd (useEffect_mount e)) + k
    \<and> fetch_calls (advance n (useEffect_cleanup (fst (useEffect_mount e))
          (advance m (snd (useEffect_mount e)))))
        = fetch_calls (advance m (snd (useEffect_mount e)))"
proof -
  let ?e1 = "e\<lparr>fetch_calls := fetch_calls e + 1\<rparr>"
  have t1: "timers ?e1 = []" using assms by simp
  have a: "refresh_interval = 300000" by (simp add: refresh_interval_def)
  have b: "fetch_calls (advance 3 (snd (setInterval 1 e))) = fetch_calls e + 3"
    using advance_periods [of 1 e 3] assms by simp
  have c: "fetch_calls (advance n (clearInterval (fst (setInterval 1 e))
          (advance 3 (snd (setInterval 1 e)))))
        = fetch_calls (advance 3 (snd (setInterval 1 e)))"
    by (rule cleared_after_advance [OF assms])
  have d: "fetch_calls (snd (useEffect_mount e)) = fetch_calls e + 1"
    by (simp add: useEffect_mount_def setInterval_def)
  have "fetch_calls (advance (k * refresh_interval) (snd (setInterval refresh_interval ?e1)))
      = fetch_calls ?e1 + k"
    by (rule advance_periods [OF _ t1]) (simp add: refresh_interval_def)
  then have f: "fetch_calls (advance (k * refresh_interval) (snd (useEffect_mount e)))
        = fetch_calls (snd (useEffect_mount e)) + k"
    by (simp add: useEffect_mount_def setInterval_def)
  have g: "fetch_calls (advance n (useEffect_cleanup (fst (useEffect_mount e))
          (advance m (snd (useEffect_mount e)))))
        = fetch_calls (advance m (snd (useEffect_mount e)))"
    unfolding useEffect_cleanup_def useEffect_mount_def
    by (rule cleared_after_advance [OF t1])
  from a b c d f g show ?thesis by blast
qed

text \<open>
  C9 at the initial runtime: three firings in three units; one fetch at mount and three
  more in three intervals; none in 1000 units after a cleanup that runs when the third
  interval has passed.
\<close>

theorem auto_refresh_fires_once_per_interval_witness:
  "timers initial_env = []
   \<and> fetch_calls (advance 3 (snd (setInterval 1 initial_env))) = 3
   \<and> fetch_calls (advance 1000 (clearInterval (fst (setInterval 1 initial_env))
        (advance 3 (snd (setInterval 1 initial_env))))) = 3
   \<and> fetch_calls (advance (3 * refresh_interval) (snd (useEffect_mount initial_env))) = 4
   \<and> fetch_calls (advance 1000 (useEffect_cleanup (fst (useEffect_mount initial_env))
        (advance (3 * refresh_interval) (snd (useEffect_mount initial_env))))) = 4"
proof -
  have h: "timers initial_env = []" by (simp add: initial_env_def)
  have f0: "fetch_calls initial_env = 0" by (simp add: initial_env_def)
  from auto_refresh_fires_once_per_interval
    [OF h, of 1000 3 "3 * refresh_interval"] h f0
  show ?thesis by simp
qed

end
